theory Spec2Isabelle
  imports Main "HOL-Library.Word"
begin

unbundle bit_operations_syntax

section \<open>Network calculator: the program and the library calls it makes\<close>

text \<open>
  The program (\<^verbatim>\<open>main.py\<close>) is a thin layer over Python's \<^verbatim>\<open>ipaddress\<close> module
  (CPython 3.11): \<^verbatim>\<open>ip_address\<close>, \<^verbatim>\<open>ip_network(..., strict=False)\<close>, and the
  attributes \<^verbatim>\<open>network_address\<close>, \<^verbatim>\<open>broadcast_address\<close>, \<^verbatim>\<open>num_addresses\<close> and
  \<^verbatim>\<open>hosts()\<close>. Those library functions are embedded first, then the two functions of
  the program. Python integers are unbounded, so addresses are \<open>int\<close>; strings are
  \<open>string\<close>. Exceptions are values: \<open>None\<close> stands for the library's
  \<^verbatim>\<open>AddressValueError\<close>/\<^verbatim>\<open>NetmaskValueError\<close>, which the program only ever catches.
  Memory is finite: the program builds the list of all hosts of the network, and the
  number of address objects that one list can hold on the machine that runs the program
  is the parameter \<open>capacity\<close> of the two functions of the program.
\<close>

subsection \<open>Strings\<close>

text \<open>\<^verbatim>\<open>s.split(sep)\<close> for a one-character separator: never empty, \<^verbatim>\<open>''.split('.') == ['']\<close>.\<close>

fun split_on :: "char \<Rightarrow> string \<Rightarrow> string list" where
  "split_on sep [] = [[]]"
| "split_on sep (c # cs) =
     (if c = sep then [] # split_on sep cs
      else (case split_on sep cs of [] \<Rightarrow> [[c]] | p # ps \<Rightarrow> (c # p) # ps))"

text \<open>\<^verbatim>\<open>sep.join(parts)\<close>.\<close>

fun join_with :: "string \<Rightarrow> string list \<Rightarrow> string" where
  "join_with sep [] = []"
| "join_with sep [p] = p"
| "join_with sep (p # q # ps) = p @ sep @ join_with sep (q # ps)"

text \<open>\<^verbatim>\<open>s.isascii() and s.isdigit()\<close>; false on the empty string, as \<^verbatim>\<open>''.isdigit()\<close> is.\<close>

definition is_digit :: "char \<Rightarrow> bool" where
  "is_digit c = (c \<in> set ''0123456789'')"

definition isdigit :: "string \<Rightarrow> bool" where
  "isdigit s = (s \<noteq> [] \<and> list_all is_digit s)"

definition digit_val :: "char \<Rightarrow> int" where
  "digit_val c = int (of_char c) - 48"

text \<open>\<^verbatim>\<open>int(s, 10)\<close> on a string of decimal digits.\<close>

definition int_of_digits :: "string \<Rightarrow> int" where
  "int_of_digits s = foldl (\<lambda>acc c. 10 * acc + digit_val c) 0 s"

definition digit_char :: "nat \<Rightarrow> char" where
  "digit_char d = ''0123456789'' ! d"

text \<open>\<^verbatim>\<open>str(n)\<close> for an integer: decimal, no leading zeros, a minus sign when negative.\<close>

fun str_nat :: "nat \<Rightarrow> string" where
  "str_nat n = (if n < 10 then [digit_char n] else str_nat (n div 10) @ [digit_char (n mod 10)])"

definition str_int :: "int \<Rightarrow> string" where
  "str_int i = (if i < 0 then CHR ''-'' # str_nat (nat (- i)) else str_nat (nat i))"

definition is_hex_digit :: "char \<Rightarrow> bool" where
  "is_hex_digit c = (c \<in> set ''0123456789ABCDEFabcdef'')"

definition hex_val :: "char \<Rightarrow> int" where
  "hex_val c =
     (if is_digit c then int (of_char c) - 48
      else if c \<in> set ''abcdef'' then int (of_char c) - 87
      else int (of_char c) - 55)"

text \<open>\<^verbatim>\<open>int(s, 16)\<close> on a string of hexadecimal digits.\<close>

definition int_of_hex :: "string \<Rightarrow> int" where
  "int_of_hex s = foldl (\<lambda>acc c. 16 * acc + hex_val c) 0 s"

definition hex_char :: "nat \<Rightarrow> char" where
  "hex_char d = ''0123456789abcdef'' ! d"

text \<open>\<^verbatim>\<open>'%x' % n\<close>: lower-case hexadecimal, no leading zeros.\<close>

fun str_hex :: "nat \<Rightarrow> string" where
  "str_hex n = (if n < 16 then [hex_char n] else str_hex (n div 16) @ [hex_char (n mod 16)])"

text \<open>The two printing functions are unfolded by hand, one digit at a time.\<close>

declare str_nat.simps [simp del] str_hex.simps [simp del]

subsection \<open>IPv4 addresses (\<^verbatim>\<open>_BaseV4\<close>, \<^verbatim>\<open>IPv4Address\<close>)\<close>

definition ALL_ONES4 :: int where
  "ALL_ONES4 = 2 ^ 32 - 1"

text \<open>\<^verbatim>\<open>_parse_octet\<close>: every \<^verbatim>\<open>ValueError\<close> it raises is \<open>None\<close>.\<close>

definition parse_octet :: "string \<Rightarrow> int option" where
  "parse_octet octet_str =
     (if octet_str = [] then None
      else if \<not> isdigit octet_str then None
      else if length octet_str > 3 then None
      else if octet_str \<noteq> ''0'' \<and> hd octet_str = CHR ''0'' then None
      else (let octet_int = int_of_digits octet_str
            in if octet_int > 255 then None else Some octet_int))"

text \<open>\<^verbatim>\<open>int.from_bytes(bs, 'big')\<close>.\<close>

definition from_bytes :: "int list \<Rightarrow> int" where
  "from_bytes bs = foldl (\<lambda>acc b. acc * 256 + b) 0 bs"

text \<open>\<^verbatim>\<open>_BaseV4._ip_int_from_string\<close>.\<close>

definition ip_int_from_string4 :: "string \<Rightarrow> int option" where
  "ip_int_from_string4 ip_str =
     (if ip_str = [] then None
      else (case split_on CHR ''.'' ip_str of
              [a, b, c, d] \<Rightarrow>
                (case (parse_octet a, parse_octet b, parse_octet c, parse_octet d) of
                   (Some w, Some x, Some y, Some z) \<Rightarrow> Some (from_bytes [w, x, y, z])
                 | _ \<Rightarrow> None)
            | _ \<Rightarrow> None))"

text \<open>\<^verbatim>\<open>IPv4Address(address)\<close> for a string argument.\<close>

definition IPv4Address :: "string \<Rightarrow> int option" where
  "IPv4Address addr_str =
     (if CHR ''/'' \<in> set addr_str then None else ip_int_from_string4 addr_str)"

text \<open>\<^verbatim>\<open>ip_int.to_bytes(4, 'big')\<close>, for \<open>0 \<le> ip_int < 2 ^ 32\<close>.\<close>

definition to_bytes4 :: "int \<Rightarrow> int list" where
  "to_bytes4 ip_int =
     [ip_int div 2 ^ 24 mod 256, ip_int div 2 ^ 16 mod 256, ip_int div 2 ^ 8 mod 256, ip_int mod 256]"

text \<open>\<^verbatim>\<open>_BaseV4._string_from_ip_int\<close>.\<close>

definition string_from_ip_int4 :: "int \<Rightarrow> string" where
  "string_from_ip_int4 ip_int = join_with ''.'' (map str_int (to_bytes4 ip_int))"

subsection \<open>IPv6 addresses (\<^verbatim>\<open>_BaseV6\<close>, \<^verbatim>\<open>IPv6Address\<close>)\<close>

definition ALL_ONES6 :: int where
  "ALL_ONES6 = 2 ^ 128 - 1"

text \<open>\<^verbatim>\<open>_split_scope_id\<close>: \<^verbatim>\<open>ip_str.partition('%')\<close>, then the checks on the scope.\<close>

definition split_scope_id :: "string \<Rightarrow> (string \<times> string option) option" where
  "split_scope_id ip_str =
     (let addr = takeWhile (\<lambda>c. c \<noteq> CHR ''%'') ip_str;
          rest = dropWhile (\<lambda>c. c \<noteq> CHR ''%'') ip_str
      in if rest = [] then Some (addr, None)
         else (let scope_id = tl rest
               in if scope_id = [] \<or> CHR ''%'' \<in> set scope_id then None
                  else Some (addr, Some scope_id)))"

text \<open>\<^verbatim>\<open>_parse_hextet\<close>; \<^verbatim>\<open>int('', 16)\<close> raises, so the empty hextet fails.\<close>

definition parse_hextet :: "string \<Rightarrow> int option" where
  "parse_hextet hextet_str =
     (if \<not> list_all is_hex_digit hextet_str then None
      else if length hextet_str > 4 then None
      else if hextet_str = [] then None
      else Some (int_of_hex hextet_str))"

text \<open>The two parsing loops of \<^verbatim>\<open>_ip_int_from_string\<close>: shift by 16, or in the hextet.\<close>

fun parse_hextets :: "int \<Rightarrow> string list \<Rightarrow> int option" where
  "parse_hextets ip_int [] = Some ip_int"
| "parse_hextets ip_int (p # ps) =
     (case parse_hextet p of
        None \<Rightarrow> None
      | Some h \<Rightarrow> parse_hextets (push_bit 16 ip_int OR h) ps)"

text \<open>
  \<^verbatim>\<open>_BaseV6._ip_int_from_string\<close>, in the three steps it takes after the split at
  the colons. First, an IPv4-style last part is replaced by its two hextets.
\<close>

definition expand_ipv4_suffix :: "string list \<Rightarrow> string list option" where
  "expand_ipv4_suffix parts =
     (if CHR ''.'' \<in> set (last parts) then
        (case IPv4Address (last parts) of
           None \<Rightarrow> None
         | Some ipv4_int \<Rightarrow>
             Some (butlast parts @
                   [str_hex (nat (drop_bit 16 ipv4_int AND 65535)),
                    str_hex (nat (ipv4_int AND 65535))]))
      else Some parts)"

text \<open>
  Second, the search for \<^verbatim>\<open>::\<close> and the layout it gives: (parts_hi, parts_lo,
  parts_skipped). \<open>skips\<close> are the indices at which the search loop finds an empty
  part; a second one raises.
\<close>

definition hextet_layout :: "string list \<Rightarrow> (nat \<times> nat \<times> nat) option" where
  "hextet_layout parts =
     (let skips = filter (\<lambda>i. parts ! i = []) [1 ..< length parts - 1] in
      if length skips > 1 then None
      else if skips \<noteq> [] then
        (let skip_index = hd skips;
             parts_hi0 = skip_index;
             parts_lo0 = length parts - skip_index - 1;
             parts_hi = (if hd parts = [] then parts_hi0 - 1 else parts_hi0);
             parts_lo = (if last parts = [] then parts_lo0 - 1 else parts_lo0)
         in if hd parts = [] \<and> parts_hi \<noteq> 0 then None
            else if last parts = [] \<and> parts_lo \<noteq> 0 then None
            else if 8 - int (parts_hi + parts_lo) < 1 then None
            else Some (parts_hi, parts_lo, 8 - (parts_hi + parts_lo)))
      else
        (if length parts \<noteq> 8 then None
         else if hd parts = [] then None
         else if last parts = [] then None
         else Some (length parts, 0, 0)))"

text \<open>Third, the hextets above and below the \<^verbatim>\<open>::\<close> are parsed into the integer.\<close>

definition parse_layout :: "string list \<Rightarrow> nat \<times> nat \<times> nat \<Rightarrow> int option" where
  "parse_layout parts layout =
     (case layout of
        (parts_hi, parts_lo, parts_skipped) \<Rightarrow>
          (case parse_hextets 0 (take parts_hi parts) of
             None \<Rightarrow> None
           | Some hi \<Rightarrow>
               parse_hextets (push_bit (16 * parts_skipped) hi)
                 (drop (length parts - parts_lo) parts)))"

definition ip_int_from_string6 :: "string \<Rightarrow> int option" where
  "ip_int_from_string6 ip_str =
     (if ip_str = [] then None
      else if length (split_on CHR '':'' ip_str) < 3 then None
      else (case expand_ipv4_suffix (split_on CHR '':'' ip_str) of
              None \<Rightarrow> None
            | Some parts \<Rightarrow>
                if length parts > 9 then None
                else (case hextet_layout parts of
                        None \<Rightarrow> None
                      | Some layout \<Rightarrow> parse_layout parts layout)))"

text \<open>\<^verbatim>\<open>IPv6Address(address)\<close> for a string argument: the integer and the scope id.\<close>

definition IPv6Address :: "string \<Rightarrow> (int \<times> string option) option" where
  "IPv6Address addr_str =
     (if CHR ''/'' \<in> set addr_str then None
      else (case split_scope_id addr_str of
              None \<Rightarrow> None
            | Some (a, scope_id) \<Rightarrow>
                (case ip_int_from_string6 a of
                   None \<Rightarrow> None
                 | Some ip \<Rightarrow> Some (ip, scope_id))))"

text \<open>
  The loop of \<^verbatim>\<open>_compress_hextets\<close> over \<^verbatim>\<open>enumerate(hextets)\<close>. The state is
  (best_doublecolon_start, best_doublecolon_len, doublecolon_start, doublecolon_len).
\<close>

fun compress_scan :: "int \<times> int \<times> int \<times> int \<Rightarrow> (int \<times> string) list \<Rightarrow> int \<times> int \<times> int \<times> int" where
  "compress_scan st [] = st"
| "compress_scan (best_start, best_len, start, len) ((index, hextet) # rest) =
     (if hextet = ''0'' then
        (let len1 = len + 1;
             start1 = (if start = - 1 then index else start)
         in if len1 > best_len
            then compress_scan (start1, len1, start1, len1) rest
            else compress_scan (best_start, best_len, start1, len1) rest)
      else compress_scan (best_start, best_len, - 1, 0) rest)"

definition compress_hextets :: "string list \<Rightarrow> string list" where
  "compress_hextets hextets =
     (case compress_scan (- 1, 0, - 1, 0) (zip (map int [0 ..< length hextets]) hextets) of
        (best_start, best_len, _, _) \<Rightarrow>
          if best_len > 1 then
            (let best_end = best_start + best_len;
                 hextets1 = (if best_end = int (length hextets) then hextets @ [[]] else hextets);
                 hextets2 = take (nat best_start) hextets1 @ [[]] @ drop (nat best_end) hextets1
             in if best_start = 0 then [] # hextets2 else hextets2)
          else hextets)"

text \<open>
  \<^verbatim>\<open>_BaseV6._string_from_ip_int\<close>: the i-th group of four digits of \<^verbatim>\<open>'%032x' % ip_int\<close>
  is the i-th 16-bit hextet of the integer, printed with \<^verbatim>\<open>'%x'\<close>.
\<close>

definition string_from_ip_int6 :: "int \<Rightarrow> string" where
  "string_from_ip_int6 ip_int =
     join_with '':''
       (compress_hextets
          (map (\<lambda>i. str_hex (nat (ip_int div 2 ^ (16 * (7 - i)) mod 65536))) [0 ..< 8]))"

subsection \<open>Networks (\<^verbatim>\<open>_BaseNetwork\<close>, \<^verbatim>\<open>IPv4Network\<close>, \<^verbatim>\<open>IPv6Network\<close>)\<close>

text \<open>An address object: its integer and, for IPv6, its scope id.\<close>

datatype address = Addr4 int | Addr6 int "string option"

fun int_of :: "address \<Rightarrow> int" where
  "int_of (Addr4 i) = i"
| "int_of (Addr6 i scope_id) = i"

text \<open>\<^verbatim>\<open>str(address)\<close>: \<^verbatim>\<open>_BaseAddress.__str__\<close> and \<^verbatim>\<open>IPv6Address.__str__\<close>.\<close>

fun str_address :: "address \<Rightarrow> string" where
  "str_address (Addr4 i) = string_from_ip_int4 i"
| "str_address (Addr6 i None) = string_from_ip_int6 i"
| "str_address (Addr6 i (Some scope_id)) = string_from_ip_int6 i @ ''%'' @ scope_id"

record network =
  network_address :: address
  netmask :: int
  prefixlen :: int

fun ALL_ONES :: "address \<Rightarrow> int" where
  "ALL_ONES (Addr4 i) = ALL_ONES4"
| "ALL_ONES (Addr6 i scope_id) = ALL_ONES6"

fun max_prefixlen :: "address \<Rightarrow> int" where
  "max_prefixlen (Addr4 i) = 32"
| "max_prefixlen (Addr6 i scope_id) = 128"

text \<open>\<^verbatim>\<open>self._address_class(x)\<close>: an address of the network's own version, from an integer.\<close>

fun address_class :: "address \<Rightarrow> int \<Rightarrow> address" where
  "address_class (Addr4 i) x = Addr4 x"
| "address_class (Addr6 i scope_id) x = Addr6 x None"

text \<open>\<^verbatim>\<open>_split_optional_netmask\<close> and \<^verbatim>\<open>_split_addr_prefix\<close> for a string argument.\<close>

definition split_optional_netmask :: "string \<Rightarrow> string list option" where
  "split_optional_netmask address =
     (let addr = split_on CHR ''/'' address in if length addr > 2 then None else Some addr)"

definition split_addr_prefix :: "string \<Rightarrow> (string \<times> string option) option" where
  "split_addr_prefix address =
     (case split_optional_netmask address of
        None \<Rightarrow> None
      | Some addr \<Rightarrow>
          if length addr > 1 then Some (hd addr, Some (addr ! 1)) else Some (hd addr, None))"

text \<open>\<^verbatim>\<open>_prefix_from_prefix_string\<close>, with \<^verbatim>\<open>cls._max_prefixlen\<close> as a parameter.\<close>

definition prefix_from_prefix_string :: "int \<Rightarrow> string \<Rightarrow> int option" where
  "prefix_from_prefix_string max_len prefixlen_str =
     (if \<not> isdigit prefixlen_str then None
      else (let p = int_of_digits prefixlen_str
            in if \<not> (0 \<le> p \<and> p \<le> max_len) then None else Some p))"

text \<open>\<^verbatim>\<open>_ip_int_from_prefix\<close>: \<^verbatim>\<open>cls._ALL_ONES ^ (cls._ALL_ONES >> prefixlen)\<close>.\<close>

definition ip_int_from_prefix :: "int \<Rightarrow> int \<Rightarrow> int" where
  "ip_int_from_prefix all_ones p = all_ones XOR drop_bit (nat p) all_ones"

text \<open>
  \<^verbatim>\<open>_make_netmask\<close> (the cache left out): the netmask and the prefix length. The argument
  is \<open>None\<close> when the string had no \<^verbatim>\<open>/\<close> and the library passes the integer
  \<^verbatim>\<open>_max_prefixlen\<close>. For IPv4 the library retries a rejected prefix string as a
  dotted-quad netmask (\<^verbatim>\<open>_prefix_from_ip_string\<close>); that retry rejects every string
  without three dots, and the program only ever passes \<^verbatim>\<open>str(cidr_mask)\<close>, so the retry
  is the \<open>None\<close> of \<open>prefix_from_prefix_string\<close>.
\<close>

definition make_netmask :: "int \<Rightarrow> int \<Rightarrow> string option \<Rightarrow> (int \<times> int) option" where
  "make_netmask all_ones max_len arg =
     (case arg of
        None \<Rightarrow> Some (ip_int_from_prefix all_ones max_len, max_len)
      | Some prefixlen_str \<Rightarrow>
          (case prefix_from_prefix_string max_len prefixlen_str of
             None \<Rightarrow> None
           | Some p \<Rightarrow> Some (ip_int_from_prefix all_ones p, p)))"

text \<open>
  \<^verbatim>\<open>IPv4Network(address, strict=False)\<close>: with host bits set the network address is
  rebuilt from the masked integer.
\<close>

definition IPv4Network :: "string \<Rightarrow> network option" where
  "IPv4Network address =
     (case split_addr_prefix address of
        None \<Rightarrow> None
      | Some (addr, msk) \<Rightarrow>
          (case IPv4Address addr of
             None \<Rightarrow> None
           | Some packed \<Rightarrow>
               (case make_netmask ALL_ONES4 32 msk of
                  None \<Rightarrow> None
                | Some (nm, pl) \<Rightarrow>
                    Some \<lparr>network_address =
                            (if packed AND nm \<noteq> packed then Addr4 (packed AND nm) else Addr4 packed),
                          netmask = nm, prefixlen = pl\<rparr>)))"

text \<open>
  \<^verbatim>\<open>IPv6Network(address, strict=False)\<close>: the rebuilt network address has no scope id,
  an aligned one keeps the scope id of the argument.
\<close>

definition IPv6Network :: "string \<Rightarrow> network option" where
  "IPv6Network address =
     (case split_addr_prefix address of
        None \<Rightarrow> None
      | Some (addr, msk) \<Rightarrow>
          (case IPv6Address addr of
             None \<Rightarrow> None
           | Some (packed, scope_id) \<Rightarrow>
               (case make_netmask ALL_ONES6 128 msk of
                  None \<Rightarrow> None
                | Some (nm, pl) \<Rightarrow>
                    Some \<lparr>network_address =
                            (if packed AND nm \<noteq> packed then Addr6 (packed AND nm) None
                             else Addr6 packed scope_id),
                          netmask = nm, prefixlen = pl\<rparr>)))"

text \<open>\<^verbatim>\<open>ip_address\<close> and \<^verbatim>\<open>ip_network(address, strict=False)\<close>: IPv4 first, then IPv6;
  \<open>None\<close> is the final \<^verbatim>\<open>ValueError\<close>.\<close>

definition ip_address :: "string \<Rightarrow> address option" where
  "ip_address address =
     (case IPv4Address address of
        Some i \<Rightarrow> Some (Addr4 i)
      | None \<Rightarrow>
          (case IPv6Address address of
             Some (i, scope_id) \<Rightarrow> Some (Addr6 i scope_id)
           | None \<Rightarrow> None))"

definition ip_network :: "string \<Rightarrow> network option" where
  "ip_network address =
     (case IPv4Network address of
        Some n \<Rightarrow> Some n
      | None \<Rightarrow> IPv6Network address)"

definition hostmask :: "network \<Rightarrow> int" where
  "hostmask n = netmask n XOR ALL_ONES (network_address n)"

definition broadcast_address :: "network \<Rightarrow> address" where
  "broadcast_address n =
     address_class (network_address n) (int_of (network_address n) OR hostmask n)"

definition num_addresses :: "network \<Rightarrow> int" where
  "num_addresses n = int_of (broadcast_address n) - int_of (network_address n) + 1"

text \<open>
  \<^verbatim>\<open>network.hosts()\<close>: the sequence of addresses that the generator yields (turning
  it into a list is \<open>py_list\<close> below, which can run out of memory). The constructors
  replace it by \<^verbatim>\<open>__iter__\<close> when one bit is left for hosts, and by the single address
  when none is. Otherwise IPv4 leaves out the network and the broadcast address
  (\<^verbatim>\<open>range(network + 1, broadcast)\<close>), IPv6 only the first
  (\<^verbatim>\<open>range(network + 1, broadcast + 1)\<close>).
\<close>

definition hosts :: "network \<Rightarrow> address list" where
  "hosts n =
     (let net = int_of (network_address n);
          bcast = int_of (broadcast_address n);
          cls = address_class (network_address n)
      in if prefixlen n = max_prefixlen (network_address n) - 1 then map cls [net .. bcast]
         else if prefixlen n = max_prefixlen (network_address n) then [network_address n]
         else (case network_address n of
                 Addr4 i \<Rightarrow> map cls [net + 1 .. bcast - 1]
               | Addr6 i scope_id \<Rightarrow> map cls [net + 1 .. bcast]))"

subsection \<open>The program: \<^verbatim>\<open>calculate_network_info\<close> and \<^verbatim>\<open>main\<close>\<close>

text \<open>The exceptions the program catches, by the message they carry.\<close>

datatype exn =
    CidrMaskRange  \<comment> \<open>\<^verbatim>\<open>ValueError("CIDR mask must be between 0 and 32.")\<close>\<close>
  | NotAnIPNetwork string  \<comment> \<open>\<^verbatim>\<open>ValueError\<close>: the string does not appear to be an IPv4 or IPv6 network\<close>
  | NotAnIPAddress string  \<comment> \<open>\<^verbatim>\<open>ValueError\<close>: the string does not appear to be an IPv4 or IPv6 address\<close>
  | IndexError  \<comment> \<open>\<^verbatim>\<open>xs[0]\<close> or \<^verbatim>\<open>xs[-1]\<close> on an empty list\<close>
  | MemoryError  \<comment> \<open>\<^verbatim>\<open>list(...)\<close> of a sequence that does not fit into memory\<close>

text \<open>
  What the program writes, in order. A log record goes to the logging module (its
  timestamp is not modelled), the others are \<^verbatim>\<open>print\<close> calls.
\<close>

datatype event =
    LogInvalidInput exn  \<comment> \<open>\<^verbatim>\<open>logging.error(f"Invalid input: {e}")\<close>\<close>
  | ErrInvalidInput exn  \<comment> \<open>\<^verbatim>\<open>print(f"Error: {e}", file=sys.stderr)\<close>\<close>
  | LogUnexpected exn  \<comment> \<open>\<^verbatim>\<open>logging.exception(f"An unexpected error occurred: {e}")\<close>\<close>
  | ErrUnexpected exn  \<comment> \<open>\<^verbatim>\<open>print(f"Error: An unexpected error occurred: {e}", file=sys.stderr)\<close>\<close>
  | LogInvalidFormat exn  \<comment> \<open>\<^verbatim>\<open>logging.error(f"Invalid IP address format: {e}")\<close>\<close>
  | ErrInvalidFormat exn  \<comment> \<open>\<^verbatim>\<open>print(f"Error: Invalid IP address format: {e}", file=sys.stderr)\<close>\<close>
  | Stdout string  \<comment> \<open>\<^verbatim>\<open>print(...)\<close> to standard output\<close>

text \<open>The dictionary that \<^verbatim>\<open>calculate_network_info\<close> returns.\<close>

record network_info =
  info_network_address :: string
  info_broadcast_address :: string
  first_usable_host :: string
  last_usable_host :: string
  total_hosts :: int

text \<open>\<^verbatim>\<open>xs[0]\<close> and \<^verbatim>\<open>xs[-1]\<close>.\<close>

definition py_first :: "'a list \<Rightarrow> 'a option" where
  "py_first xs = (case xs of [] \<Rightarrow> None | x # _ \<Rightarrow> Some x)"

definition py_last :: "'a list \<Rightarrow> 'a option" where
  "py_last xs = (if xs = [] then None else Some (last xs))"

text \<open>
  \<^verbatim>\<open>list(xs)\<close> on a machine where a list holds at most \<open>capacity\<close> elements:
  \<open>None\<close> is the \<^verbatim>\<open>MemoryError\<close> raised when the sequence is longer than that.
\<close>

definition py_list :: "nat \<Rightarrow> 'a list \<Rightarrow> 'a list option" where
  "py_list capacity xs = (if length xs \<le> capacity then Some xs else None)"

definition NA :: string where
  "NA = ''N/A (Network too small)''"

text \<open>The two handlers: what is written, and the \<^verbatim>\<open>None\<close> that is returned.\<close>

definition except_ValueError :: "exn \<Rightarrow> event list \<times> network_info option" where
  "except_ValueError e = ([LogInvalidInput e, ErrInvalidInput e], None)"

definition except_Exception :: "exn \<Rightarrow> event list \<times> network_info option" where
  "except_Exception e = ([LogUnexpected e, ErrUnexpected e], None)"

text \<open>
  \<^verbatim>\<open>calculate_network_info\<close>. Lines 43 and 44 of the source each build
  \<^verbatim>\<open>list(network.hosts())\<close> afresh and index it once; a \<^verbatim>\<open>MemoryError\<close> or an
  \<^verbatim>\<open>IndexError\<close> there is caught by \<^verbatim>\<open>except Exception\<close>.
\<close>

definition calculate_network_info ::
  "nat \<Rightarrow> string \<Rightarrow> int \<Rightarrow> event list \<times> network_info option" where
  "calculate_network_info capacity ip cidr_mask =
     (if \<not> (0 \<le> cidr_mask \<and> cidr_mask \<le> 32) then except_ValueError CidrMaskRange
      else (case ip_network (ip @ ''/'' @ str_int cidr_mask) of
              None \<Rightarrow> except_ValueError (NotAnIPNetwork (ip @ ''/'' @ str_int cidr_mask))
            | Some n \<Rightarrow>
                if num_addresses n > 2 then
                  (case py_list capacity (hosts n) of
                     None \<Rightarrow> except_Exception MemoryError
                   | Some hosts1 \<Rightarrow>
                       (case py_first hosts1 of
                          None \<Rightarrow> except_Exception IndexError
                        | Some first \<Rightarrow>
                            (case py_list capacity (hosts n) of
                               None \<Rightarrow> except_Exception MemoryError
                             | Some hosts2 \<Rightarrow>
                                 (case py_last hosts2 of
                                    None \<Rightarrow> except_Exception IndexError
                                  | Some lst \<Rightarrow>
                                      ([], Some \<lparr>info_network_address =
                                                   str_address (network_address n),
                                                 info_broadcast_address =
                                                   str_address (broadcast_address n),
                                                 first_usable_host = str_address first,
                                                 last_usable_host = str_address lst,
                                                 total_hosts = num_addresses n\<rparr>)))))
                else
                  ([], Some \<lparr>info_network_address = str_address (network_address n),
                             info_broadcast_address = str_address (broadcast_address n),
                             first_usable_host = NA,
                             last_usable_host = NA,
                             total_hosts = num_addresses n\<rparr>)))"

text \<open>
  \<^verbatim>\<open>main\<close>, after \<^verbatim>\<open>argparse\<close> has delivered the address string and the integer: the
  events and the exit status (0 when \<^verbatim>\<open>main\<close> returns, 1 from \<^verbatim>\<open>sys.exit(1)\<close>).
\<close>

definition report :: "network_info \<Rightarrow> event list" where
  "report network_info =
     [Stdout (''Network Address:   '' @ info_network_address network_info),
      Stdout (''Broadcast Address: '' @ info_broadcast_address network_info),
      Stdout (''First Usable Host: '' @ first_usable_host network_info),
      Stdout (''Last Usable Host:  '' @ last_usable_host network_info),
      Stdout (''Total Hosts:       '' @ str_int (total_hosts network_info))]"

definition main :: "nat \<Rightarrow> string \<Rightarrow> int \<Rightarrow> event list \<times> int" where
  "main capacity ip cidr_mask =
     (case ip_address ip of
        None \<Rightarrow> ([LogInvalidFormat (NotAnIPAddress ip), ErrInvalidFormat (NotAnIPAddress ip)], 1)
      | Some _ \<Rightarrow>
          (case calculate_network_info capacity ip cidr_mask of
             (evs, Some network_info) \<Rightarrow> (evs @ report network_info, 0)
           | (evs, None) \<Rightarrow> (evs, 1)))"

text \<open>What reaches standard output.\<close>

fun stdout_of :: "event list \<Rightarrow> string list" where
  "stdout_of [] = []"
| "stdout_of (Stdout s # evs) = s # stdout_of evs"
| "stdout_of (_ # evs) = stdout_of evs"

text \<open>
  The network object that \<^verbatim>\<open>IPv4Network(..., strict=False)\<close> builds from a parsed
  address and a prefix length; a name for it, used in the statements below.
\<close>

definition net4 :: "int \<Rightarrow> int \<Rightarrow> network" where
  "net4 a c = \<lparr>network_address = Addr4 (a AND ip_int_from_prefix ALL_ONES4 c),
               netmask = ip_int_from_prefix ALL_ONES4 c, prefixlen = c\<rparr>"


section \<open>Properties\<close>

subsection \<open>Building and indexing the list of hosts\<close>

text \<open>
  The calculation indexes \<^verbatim>\<open>list(network.hosts())\<close> only when the network has more than
  two addresses; the list is then not empty, so the \<^verbatim>\<open>IndexError\<close> branch is dead. The
  \<^verbatim>\<open>MemoryError\<close> branch is not: it is taken exactly when the network has more than two
  addresses and more hosts than a list can hold.
\<close>

lemma hosts_nonempty: "num_addresses n > 2 \<Longrightarrow> hosts n \<noteq> []"
  by (cases "network_address n") (auto simp: hosts_def num_addresses_def Let_def)

lemma py_first_hosts: "num_addresses n > 2 \<Longrightarrow> py_first (hosts n) = Some (hd (hosts n))"
  using hosts_nonempty [of n] by (cases "hosts n") (simp_all add: py_first_def)

lemma py_last_hosts: "num_addresses n > 2 \<Longrightarrow> py_last (hosts n) = Some (last (hosts n))"
  using hosts_nonempty [of n] by (simp add: py_last_def)

lemma calculate_cases:
  "calculate_network_info capacity ip cidr_mask =
     (if \<not> (0 \<le> cidr_mask \<and> cidr_mask \<le> 32) then except_ValueError CidrMaskRange
      else (case ip_network (ip @ ''/'' @ str_int cidr_mask) of
              None \<Rightarrow> except_ValueError (NotAnIPNetwork (ip @ ''/'' @ str_int cidr_mask))
            | Some n \<Rightarrow>
                if num_addresses n > 2 \<and> capacity < length (hosts n)
                then except_Exception MemoryError
                else
                ([], Some \<lparr>info_network_address = str_address (network_address n),
                           info_broadcast_address = str_address (broadcast_address n),
                           first_usable_host =
                             (if num_addresses n > 2 then str_address (hd (hosts n)) else NA),
                           last_usable_host =
                             (if num_addresses n > 2 then str_address (last (hosts n)) else NA),
                           total_hosts = num_addresses n\<rparr>)))"
  by (simp add: calculate_network_info_def py_list_def py_first_hosts py_last_hosts
      split: option.splits)

subsection \<open>Prefix lengths outside the range\<close>

lemma ip_address_192_168_1_1: "ip_address ''192.168.1.1'' = Some (Addr4 3232235777)"
  by code_simp

text \<open>
  Claim C5. For every integer prefix length outside [0, 32] the calculation fails with
  the invalid-prefix-length error, whatever the address string and the memory of the
  machine are (the range check runs before \<^verbatim>\<open>ip_network\<close> is called, so no network
  arithmetic is attempted); the program exits with status 1 and prints nothing to
  standard output; and when the address passes the format check of \<^verbatim>\<open>main\<close>, the
  invalid-prefix-length error is all the program writes.
\<close>

theorem prefix_out_of_range_fails:
  "cidr_mask < 0 \<or> 32 < cidr_mask \<Longrightarrow>
     calculate_network_info capacity ip cidr_mask =
       ([LogInvalidInput CidrMaskRange, ErrInvalidInput CidrMaskRange], None)
     \<and> snd (main capacity ip cidr_mask) = 1
     \<and> stdout_of (fst (main capacity ip cidr_mask)) = []
     \<and> (ip_address ip \<noteq> None \<longrightarrow>
          main capacity ip cidr_mask =
            ([LogInvalidInput CidrMaskRange, ErrInvalidInput CidrMaskRange], 1))"
  by (auto simp: calculate_network_info_def main_def except_ValueError_def split: option.splits)

theorem prefix_out_of_range_fails_witness:
  "((33::int) < 0 \<or> 32 < (33::int)) \<and> ip_address ''192.168.1.1'' \<noteq> None
   \<and> main 1000 ''192.168.1.1'' 33 =
       ([LogInvalidInput CidrMaskRange, ErrInvalidInput CidrMaskRange], 1)"
  using prefix_out_of_range_fails
          [where cidr_mask = 33 and ip = "''192.168.1.1''" and capacity = 1000]
    ip_address_192_168_1_1
  by simp

subsection \<open>What a failing calculation returns and writes\<close>

lemma calculate_999_1_1_1:
  "calculate_network_info 1000 ''999.1.1.1'' 24 =
     ([LogInvalidInput (NotAnIPNetwork ''999.1.1.1/24''),
       ErrInvalidInput (NotAnIPNetwork ''999.1.1.1/24'')], None)"
  by code_simp

lemma ip_network_999_1_1_1: "ip_network (''999.1.1.1'' @ ''/'' @ str_int 24) = None"
  by code_simp

lemma calculate_192_168_1_1_33:
  "calculate_network_info 1000 ''192.168.1.1'' 33 =
     ([LogInvalidInput CidrMaskRange, ErrInvalidInput CidrMaskRange], None)"
  by code_simp

lemma calculate_192_168_1_77_30:
  "calculate_network_info 1000 ''192.168.1.77'' 30 =
     ([], Some \<lparr>info_network_address = ''192.168.1.76'',
                info_broadcast_address = ''192.168.1.79'',
                first_usable_host = ''192.168.1.77'',
                last_usable_host = ''192.168.1.78'',
                total_hosts = 4\<rparr>)"
  by code_simp

lemma calculate_192_168_1_77_30_small:
  "calculate_network_info 2 ''192.168.1.77'' 30 =
     ([], Some \<lparr>info_network_address = ''192.168.1.76'',
                info_broadcast_address = ''192.168.1.79'',
                first_usable_host = ''192.168.1.77'',
                last_usable_host = ''192.168.1.78'',
                total_hosts = 4\<rparr>)"
  by code_simp

text \<open>
  Claim C7, as stated, fails: a malformed address and an out-of-range prefix length
  both make the calculation return the same value \<^verbatim>\<open>None\<close>, so the returned value
  carries no tag that tells the two failures apart.
\<close>

theorem failure_kinds_same_result_counterexample:
  "snd (calculate_network_info 1000 ''999.1.1.1'' 24) = None
   \<and> snd (calculate_network_info 1000 ''192.168.1.1'' 33) = None
   \<and> snd (calculate_network_info 1000 ''999.1.1.1'' 24) =
       snd (calculate_network_info 1000 ''192.168.1.1'' 33)"
  by (simp add: calculate_999_1_1_1 calculate_192_168_1_1_33)

text \<open>
  Claim C7, amended. Both classified failures return the same value \<^verbatim>\<open>None\<close>: the one
  of a prefix length outside [0, 32], and the one of a string that, with an in-range
  prefix length, is not an IP network. Which of the two occurred shows only in what the
  function logs and prints to standard error: it writes the range message exactly when
  the prefix length is out of range, and the not-an-IP-network message exactly when
  the prefix length is in range and the string is not an IP network. (Nothing is said
  here about a calculation that fails for another reason.)
\<close>

theorem failure_kinds_told_by_message:
  "(\<not> (0 \<le> cidr_mask \<and> cidr_mask \<le> 32) \<longrightarrow>
      snd (calculate_network_info capacity ip cidr_mask) = None)
   \<and> (0 \<le> cidr_mask \<and> cidr_mask \<le> 32 \<and> ip_network (ip @ ''/'' @ str_int cidr_mask) = None \<longrightarrow>
      snd (calculate_network_info capacity ip cidr_mask) = None)
   \<and> (fst (calculate_network_info capacity ip cidr_mask) =
         [LogInvalidInput CidrMaskRange, ErrInvalidInput CidrMaskRange]
       \<longleftrightarrow> \<not> (0 \<le> cidr_mask \<and> cidr_mask \<le> 32))
   \<and> (fst (calculate_network_info capacity ip cidr_mask) =
         [LogInvalidInput (NotAnIPNetwork (ip @ ''/'' @ str_int cidr_mask)),
          ErrInvalidInput (NotAnIPNetwork (ip @ ''/'' @ str_int cidr_mask))]
       \<longleftrightarrow> 0 \<le> cidr_mask \<and> cidr_mask \<le> 32 \<and> ip_network (ip @ ''/'' @ str_int cidr_mask) = None)"
  by (auto simp: calculate_cases except_ValueError_def except_Exception_def
      split: option.splits if_splits)

theorem failure_kinds_told_by_message_witness:
  "\<not> (0 \<le> (33::int) \<and> (33::int) \<le> 32)
   \<and> snd (calculate_network_info 1000 ''192.168.1.1'' 33) = None
   \<and> fst (calculate_network_info 1000 ''192.168.1.1'' 33) =
       [LogInvalidInput CidrMaskRange, ErrInvalidInput CidrMaskRange]
   \<and> (0 \<le> (24::int) \<and> (24::int) \<le> 32 \<and> ip_network (''999.1.1.1'' @ ''/'' @ str_int 24) = None)
   \<and> snd (calculate_network_info 1000 ''999.1.1.1'' 24) = None
   \<and> fst (calculate_network_info 1000 ''999.1.1.1'' 24) =
       [LogInvalidInput (NotAnIPNetwork ''999.1.1.1/24''),
        ErrInvalidInput (NotAnIPNetwork ''999.1.1.1/24'')]"
  using failure_kinds_told_by_message
          [where cidr_mask = 33 and ip = "''192.168.1.1''" and capacity = 1000]
    failure_kinds_told_by_message
          [where cidr_mask = 24 and ip = "''999.1.1.1''" and capacity = 1000]
    ip_network_999_1_1_1
  by (simp add: calculate_999_1_1_1 calculate_192_168_1_1_33)

text \<open>
  Claim C8, as stated, fails: on a failing input the calculation itself writes a log
  record and a line on standard error.
\<close>

theorem calculation_writes_on_failure_counterexample:
  "fst (calculate_network_info 1000 ''192.168.1.1'' 33) \<noteq> []"
  by (simp add: calculate_192_168_1_1_33)

text \<open>
  Claim C8, amended. When the calculation returns a record it has written nothing. When
  the prefix length is out of range, or the string is not an IP network, it returns
  \<^verbatim>\<open>None\<close> after writing exactly one error-level log record and one line on standard
  error, both with the same message, and nothing on standard output; that outcome is
  the same on every machine. And two calls on the same arguments that both return a
  record return the same record, whatever the memory of the machines. (The log
  record's timestamp is not modelled; nothing is said here about a calculation that
  fails for another reason.)
\<close>

theorem calculation_effects:
  "(snd (calculate_network_info capacity ip cidr_mask) \<noteq> None \<longrightarrow>
      fst (calculate_network_info capacity ip cidr_mask) = [])
   \<and> (\<not> (0 \<le> cidr_mask \<and> cidr_mask \<le> 32) \<or> ip_network (ip @ ''/'' @ str_int cidr_mask) = None \<longrightarrow>
        snd (calculate_network_info capacity ip cidr_mask) = None
      \<and> stdout_of (fst (calculate_network_info capacity ip cidr_mask)) = []
      \<and> (\<exists>e. fst (calculate_network_info capacity ip cidr_mask) =
               [LogInvalidInput e, ErrInvalidInput e])
      \<and> calculate_network_info capacity' ip cidr_mask =
          calculate_network_info capacity ip cidr_mask)
   \<and> (snd (calculate_network_info capacity ip cidr_mask) \<noteq> None
      \<and> snd (calculate_network_info capacity' ip cidr_mask) \<noteq> None \<longrightarrow>
        calculate_network_info capacity' ip cidr_mask =
        calculate_network_info capacity ip cidr_mask)"
  by (auto simp: calculate_cases except_ValueError_def except_Exception_def
      split: option.splits if_splits)

theorem calculation_effects_witness:
  "snd (calculate_network_info 1000 ''192.168.1.77'' 30) \<noteq> None
   \<and> fst (calculate_network_info 1000 ''192.168.1.77'' 30) = []
   \<and> snd (calculate_network_info 2 ''192.168.1.77'' 30) \<noteq> None
   \<and> calculate_network_info 2 ''192.168.1.77'' 30 =
       calculate_network_info 1000 ''192.168.1.77'' 30
   \<and> \<not> (0 \<le> (33::int) \<and> (33::int) \<le> 32)
   \<and> snd (calculate_network_info 1000 ''192.168.1.1'' 33) = None
   \<and> stdout_of (fst (calculate_network_info 1000 ''192.168.1.1'' 33)) = []
   \<and> (\<exists>e. fst (calculate_network_info 1000 ''192.168.1.1'' 33) =
            [LogInvalidInput e, ErrInvalidInput e])
   \<and> calculate_network_info 2 ''192.168.1.1'' 33 =
       calculate_network_info 1000 ''192.168.1.1'' 33"
  using calculation_effects
          [where cidr_mask = 30 and ip = "''192.168.1.77''" and capacity = 1000
             and capacity' = 2]
    calculation_effects
          [where cidr_mask = 33 and ip = "''192.168.1.1''" and capacity = 1000
             and capacity' = 2]
  by (simp add: calculate_192_168_1_77_30 calculate_192_168_1_77_30_small
      calculate_192_168_1_1_33)

subsection \<open>Splitting and decimal numerals\<close>


lemma split_on_no_sep: "sep \<notin> set s \<Longrightarrow> split_on sep s = [s]"
  by (induction s) auto

lemma split_on_append: "sep \<notin> set xs \<Longrightarrow> split_on sep (xs @ sep # ys) = xs # split_on sep ys"
  by (induction xs) auto

lemma digit_char_is_digit: "d < 10 \<Longrightarrow> is_digit (digit_char d)"
proof -
  assume "d < 10"
  then have "d \<in> {0, 1, 2, 3, 4, 5, 6, 7, 8, 9}" by auto
  then show ?thesis by (auto simp: is_digit_def digit_char_def)
qed

lemma digit_val_digit_char: "d < 10 \<Longrightarrow> digit_val (digit_char d) = int d"
proof -
  assume "d < 10"
  then have "d \<in> {0, 1, 2, 3, 4, 5, 6, 7, 8, 9}" by auto
  then show ?thesis by (auto simp: digit_val_def digit_char_def)
qed

lemma int_of_digits_snoc: "int_of_digits (xs @ [c]) = 10 * int_of_digits xs + digit_val c"
  by (simp add: int_of_digits_def)

lemma str_nat_small: "n < 10 \<Longrightarrow> str_nat n = [digit_char n]"
  by (subst str_nat.simps) simp

lemma str_nat_large: "\<not> n < 10 \<Longrightarrow> str_nat n = str_nat (n div 10) @ [digit_char (n mod 10)]"
  by (subst str_nat.simps) simp

lemma str_nat_digits: "list_all is_digit (str_nat n)"
proof (induction n rule: str_nat.induct)
  case (1 n)
  show ?case
  proof (cases "n < 10")
    case True
    then show ?thesis by (simp add: str_nat_small digit_char_is_digit)
  next
    case False
    have "n mod 10 < 10" by simp
    with False 1 show ?thesis
      by (simp add: str_nat_large digit_char_is_digit)
  qed
qed

lemma str_nat_nonempty: "str_nat n \<noteq> []"
  by (cases "n < 10") (simp_all add: str_nat_small str_nat_large)

lemma int_of_digits_str_nat: "int_of_digits (str_nat n) = int n"
proof (induction n rule: str_nat.induct)
  case (1 n)
  show ?case
  proof (cases "n < 10")
    case True
    then show ?thesis by (simp add: str_nat_small int_of_digits_def digit_val_digit_char)
  next
    case False
    have "n mod 10 < 10" by simp
    then have d: "digit_val (digit_char (n mod 10)) = int (n mod 10)"
      by (rule digit_val_digit_char)
    from False 1 have ih: "int_of_digits (str_nat (n div 10)) = int (n div 10)" by simp
    have "int_of_digits (str_nat n) = 10 * int (n div 10) + int (n mod 10)"
      using False d ih by (simp add: str_nat_large int_of_digits_snoc)
    also have "\<dots> = int (10 * (n div 10) + n mod 10)"
      by (simp only: of_nat_add of_nat_mult of_nat_numeral)
    also have "\<dots> = int n" by (simp only: mult_div_mod_eq)
    finally show ?thesis .
  qed
qed

lemma slash_not_digit: "is_digit c \<Longrightarrow> c \<noteq> CHR ''/'' \<and> c \<noteq> CHR ''.'' \<and> c \<noteq> CHR ''N''"
  by (auto simp: is_digit_def)

lemma str_int_nonneg: "0 \<le> i \<Longrightarrow> str_int i = str_nat (nat i)"
  by (simp add: str_int_def)

lemma prefix_from_prefix_string_str_int:
  "0 \<le> c \<Longrightarrow> c \<le> m \<Longrightarrow> prefix_from_prefix_string m (str_int c) = Some c"
  by (simp add: prefix_from_prefix_string_def str_int_nonneg isdigit_def str_nat_nonempty
      str_nat_digits int_of_digits_str_nat)

lemma slash_notin_str_int: "0 \<le> c \<Longrightarrow> CHR ''/'' \<notin> set (str_int c)"
  using str_nat_digits [of "nat c"] slash_not_digit
  by (auto simp: str_int_nonneg list_all_iff)

lemma split_addr_prefix_cidr:
  "CHR ''/'' \<notin> set ip \<Longrightarrow> 0 \<le> c \<Longrightarrow>
     split_addr_prefix (ip @ CHR ''/'' # str_int c) = Some (ip, Some (str_int c))"
  by (simp add: split_addr_prefix_def split_optional_netmask_def split_on_append
      split_on_no_sep slash_notin_str_int)

lemma IPv4Address_no_slash: "IPv4Address s = Some a \<Longrightarrow> CHR ''/'' \<notin> set s"
  by (auto simp: IPv4Address_def split: if_splits)

lemma IPv4Network_cidr:
  "IPv4Address ip = Some a \<Longrightarrow> 0 \<le> c \<Longrightarrow> c \<le> 32 \<Longrightarrow>
     IPv4Network (ip @ CHR ''/'' # str_int c) =
       Some \<lparr>network_address = Addr4 (a AND ip_int_from_prefix ALL_ONES4 c),
             netmask = ip_int_from_prefix ALL_ONES4 c, prefixlen = c\<rparr>"
  by (frule IPv4Address_no_slash)
     (simp add: IPv4Network_def split_addr_prefix_cidr make_netmask_def
       prefix_from_prefix_string_str_int)

lemma ip_network_cidr:
  "IPv4Address ip = Some a \<Longrightarrow> 0 \<le> c \<Longrightarrow> c \<le> 32 \<Longrightarrow>
     ip_network (ip @ CHR ''/'' # str_int c) =
       Some \<lparr>network_address = Addr4 (a AND ip_int_from_prefix ALL_ONES4 c),
             netmask = ip_int_from_prefix ALL_ONES4 c, prefixlen = c\<rparr>"
  by (simp add: ip_network_def IPv4Network_cidr)

subsection \<open>Netmask arithmetic of an IPv4 network\<close>

lemma ALL_ONES4_mask: "ALL_ONES4 = mask 32"
  by (simp add: ALL_ONES4_def mask_eq_exp_minus_1)

lemma netmask4_bits:
  "0 \<le> c \<Longrightarrow> c \<le> 32 \<Longrightarrow>
     bit (ip_int_from_prefix ALL_ONES4 c) k \<longleftrightarrow> 32 - nat c \<le> k \<and> k < 32"
  by (auto simp: ip_int_from_prefix_def ALL_ONES4_mask bit_simps)

lemma hostmask4_eq:
  "0 \<le> c \<Longrightarrow> c \<le> 32 \<Longrightarrow> ip_int_from_prefix ALL_ONES4 c XOR ALL_ONES4 = mask (32 - nat c)"
  by (rule bit_eqI) (auto simp: ip_int_from_prefix_def ALL_ONES4_mask bit_simps)

lemma network4_no_host_bits:
  "0 \<le> c \<Longrightarrow> c \<le> 32 \<Longrightarrow> (a AND ip_int_from_prefix ALL_ONES4 c) AND mask (32 - nat c) = 0"
  by (rule bit_eqI) (auto simp: netmask4_bits bit_simps)

lemma broadcast4_sum:
  "0 \<le> c \<Longrightarrow> c \<le> 32 \<Longrightarrow>
     (a AND ip_int_from_prefix ALL_ONES4 c) OR mask (32 - nat c) =
     (a AND ip_int_from_prefix ALL_ONES4 c) + (2 ^ (32 - nat c) - 1)"
  using disjunctive_add_eq_or [OF network4_no_host_bits, of c a]
  by (simp add: mask_eq_exp_minus_1)


lemma broadcast_address_net4:
  "0 \<le> c \<Longrightarrow> c \<le> 32 \<Longrightarrow>
     broadcast_address (net4 a c) =
       Addr4 ((a AND ip_int_from_prefix ALL_ONES4 c) OR (ip_int_from_prefix ALL_ONES4 c XOR ALL_ONES4))"
  by (simp add: broadcast_address_def hostmask_def net4_def)

lemma int_of_broadcast_net4:
  "0 \<le> c \<Longrightarrow> c \<le> 32 \<Longrightarrow>
     int_of (broadcast_address (net4 a c)) =
       (a AND ip_int_from_prefix ALL_ONES4 c) + (2 ^ (32 - nat c) - 1)"
  by (simp add: broadcast_address_net4 hostmask4_eq broadcast4_sum)

lemma num_addresses_net4:
  "0 \<le> c \<Longrightarrow> c \<le> 32 \<Longrightarrow> num_addresses (net4 a c) = 2 ^ (32 - nat c)"
  by (simp add: num_addresses_def int_of_broadcast_net4) (simp add: net4_def)

lemma num_addresses_net4_gt2:
  "0 \<le> c \<Longrightarrow> c \<le> 32 \<Longrightarrow> num_addresses (net4 a c) > 2 \<longleftrightarrow> c \<le> 30"
proof -
  assume c: "0 \<le> c" "c \<le> 32"
  have "(2::int) ^ (32 - nat c) > 2 ^ 1 \<longleftrightarrow> 1 < 32 - nat c"
    by (rule power_strict_increasing_iff) simp
  with c show ?thesis by (auto simp: num_addresses_net4)
qed

lemma hosts_net4:
  "0 \<le> c \<Longrightarrow> c \<le> 30 \<Longrightarrow>
     hosts (net4 a c) =
       map Addr4 [(a AND ip_int_from_prefix ALL_ONES4 c) + 1 ..
                  (a AND ip_int_from_prefix ALL_ONES4 c) + (2 ^ (32 - nat c) - 1) - 1]"
proof -
  assume c: "0 \<le> c" "c \<le> 30"
  then have b: "int_of (broadcast_address (net4 a c)) =
       (a AND ip_int_from_prefix ALL_ONES4 c) + (2 ^ (32 - nat c) - 1)"
    by (simp add: int_of_broadcast_net4)
  have cls: "address_class (network_address (net4 a c)) = Addr4"
    by (rule ext) (simp add: net4_def)
  have n: "network_address (net4 a c) = Addr4 (a AND ip_int_from_prefix ALL_ONES4 c)"
    "prefixlen (net4 a c) = c"
    by (simp_all add: net4_def)
  from c show ?thesis
    unfolding hosts_def Let_def b cls n by simp
qed

lemma two_le_hostcount: "c \<le> 30 \<Longrightarrow> (4::int) \<le> 2 ^ (32 - nat c)"
proof -
  assume "c \<le> 30"
  then have "2 \<le> 32 - nat c" by simp
  then have "(2::int) ^ 2 \<le> 2 ^ (32 - nat c)"
    by (rule power_increasing) simp
  then show ?thesis by simp
qed

lemma hd_map_upto: "i \<le> j \<Longrightarrow> hd (map f [i..j]) = f i"
  by (subst upto_rec1) simp_all

lemma last_map_upto: "i \<le> j \<Longrightarrow> last (map f [i..j]) = f j"
  by (subst upto_rec2) simp_all

lemma hd_hosts_net4:
  "0 \<le> c \<Longrightarrow> c \<le> 30 \<Longrightarrow>
     hd (hosts (net4 a c)) = Addr4 ((a AND ip_int_from_prefix ALL_ONES4 c) + 1)"
  using two_le_hostcount [of c] by (simp add: hosts_net4 hd_map_upto)

lemma last_hosts_net4:
  "0 \<le> c \<Longrightarrow> c \<le> 30 \<Longrightarrow>
     last (hosts (net4 a c)) =
       Addr4 ((a AND ip_int_from_prefix ALL_ONES4 c) + (2 ^ (32 - nat c) - 1) - 1)"
  using two_le_hostcount [of c] by (simp add: hosts_net4 last_map_upto)

lemma length_hosts_net4:
  "0 \<le> c \<Longrightarrow> c \<le> 30 \<Longrightarrow> length (hosts (net4 a c)) = nat (2 ^ (32 - nat c) - 2)"
  by (simp add: hosts_net4)

subsection \<open>The calculation on a valid IPv4 address\<close>

lemma ip_network_net4:
  "IPv4Address ip = Some a \<Longrightarrow> 0 \<le> c \<Longrightarrow> c \<le> 32 \<Longrightarrow>
     ip_network (ip @ CHR ''/'' # str_int c) = Some (net4 a c)"
  by (simp add: ip_network_cidr net4_def)

lemma host_count_gt2: "0 \<le> c \<Longrightarrow> c \<le> 32 \<Longrightarrow> (2::int) < 2 ^ (32 - nat c) \<longleftrightarrow> c \<le> 30"
  using num_addresses_net4_gt2 [of c 0] by (simp add: num_addresses_net4)

text \<open>
  The calculation returns the record whenever the list of hosts fits: always for the
  prefix lengths 31 and 32, where no list is built, and for a prefix length up to 30
  when the \<open>2 ^ (32 - c) - 2\<close> hosts fit into one list.
\<close>

lemma calculate_ipv4:
  assumes "IPv4Address ip = Some a" "0 \<le> c" "c \<le> 32"
    and fits: "c \<le> 30 \<Longrightarrow> 2 ^ (32 - nat c) - 2 \<le> int capacity"
  shows "calculate_network_info capacity ip c =
     ([], Some \<lparr>info_network_address =
                  string_from_ip_int4 (a AND ip_int_from_prefix ALL_ONES4 c),
                info_broadcast_address =
                  string_from_ip_int4 ((a AND ip_int_from_prefix ALL_ONES4 c) OR
                                       (ip_int_from_prefix ALL_ONES4 c XOR ALL_ONES4)),
                first_usable_host =
                  (if c \<le> 30
                   then string_from_ip_int4 ((a AND ip_int_from_prefix ALL_ONES4 c) + 1)
                   else NA),
                last_usable_host =
                  (if c \<le> 30
                   then string_from_ip_int4
                          (((a AND ip_int_from_prefix ALL_ONES4 c) OR
                            (ip_int_from_prefix ALL_ONES4 c XOR ALL_ONES4)) - 1)
                   else NA),
                total_hosts = 2 ^ (32 - nat c)\<rparr>)"
proof -
  have n: "ip_network (ip @ CHR ''/'' # str_int c) = Some (net4 a c)"
    using assms(1-3) by (rule ip_network_net4)
  have na: "network_address (net4 a c) = Addr4 (a AND ip_int_from_prefix ALL_ONES4 c)"
    by (simp add: net4_def)
  have b: "(a AND ip_int_from_prefix ALL_ONES4 c) OR (ip_int_from_prefix ALL_ONES4 c XOR ALL_ONES4)
           = (a AND ip_int_from_prefix ALL_ONES4 c) + (2 ^ (32 - nat c) - 1)"
    using assms(2,3) by (simp add: hostmask4_eq broadcast4_sum)
  have g: "(2::int) < 2 ^ (32 - nat c) \<longleftrightarrow> c \<le> 30"
    using assms(2,3) by (rule host_count_gt2)
  show ?thesis
  proof (cases "c \<le> 30")
    case True
    with assms(2) have "length (hosts (net4 a c)) = nat (2 ^ (32 - nat c) - 2)"
      by (simp add: length_hosts_net4)
    with fits [OF True] have nf: "\<not> capacity < length (hosts (net4 a c))" by linarith
    from True assms(2) show ?thesis
      by (simp add: calculate_cases n na num_addresses_net4 g nf
          broadcast_address_net4 hd_hosts_net4 last_hosts_net4 b)
  next
    case False
    with assms(2,3) show ?thesis
      by (simp add: calculate_cases n na num_addresses_net4 g broadcast_address_net4 b)
  qed
qed

text \<open>
  It fails, through \<^verbatim>\<open>except Exception\<close>, whenever the list of hosts does not fit.
\<close>

lemma calculate_ipv4_memory_error:
  assumes "IPv4Address ip = Some a" "0 \<le> c" "c \<le> 30"
    and "int capacity < 2 ^ (32 - nat c) - 2"
  shows "calculate_network_info capacity ip c = ([LogUnexpected MemoryError, ErrUnexpected MemoryError], None)"
proof -
  from assms(3) have c32: "c \<le> 32" by simp
  have n: "ip_network (ip @ CHR ''/'' # str_int c) = Some (net4 a c)"
    using assms(1,2) c32 by (rule ip_network_net4)
  have g: "(2::int) < 2 ^ (32 - nat c) \<longleftrightarrow> c \<le> 30"
    using assms(2) c32 by (rule host_count_gt2)
  from assms(2,3) have "length (hosts (net4 a c)) = nat (2 ^ (32 - nat c) - 2)"
    by (simp add: length_hosts_net4)
  with assms(4) have nf: "capacity < length (hosts (net4 a c))" by linarith
  from assms(2,3) c32 show ?thesis
    by (simp add: calculate_cases n num_addresses_net4 g nf except_Exception_def)
qed

lemma IPv4Address_192_168_1_77: "IPv4Address ''192.168.1.77'' = Some 3232235853"
  by code_simp

lemma IPv4Address_10_0_0_1: "IPv4Address ''10.0.0.1'' = Some 167772161"
  by code_simp

lemma ip_address_10_0_0_1: "ip_address ''10.0.0.1'' = Some (Addr4 167772161)"
  by code_simp

lemma calculate_10_0_0_1_prefix_0:
  "capacity < 4294967294 \<Longrightarrow>
     calculate_network_info capacity ''10.0.0.1'' 0 = ([LogUnexpected MemoryError, ErrUnexpected MemoryError], None)"
  by (rule calculate_ipv4_memory_error [OF IPv4Address_10_0_0_1]) simp_all

text \<open>
  On every valid input for which the list of hosts fits, the results are the expected
  ones. The reported network address is the address AND the netmask, the reported broadcast
  address is the network address OR the 32-bit complement of the netmask; the netmask
  has exactly its top prefix-length bits set, its complement exactly the bits below,
  and the network address has no bit of the complement set.
\<close>

lemma network_and_broadcast_by_mask:
  assumes "IPv4Address ip = Some a" "0 \<le> c" "c \<le> 32"
    and fits: "c \<le> 30 \<Longrightarrow> 2 ^ (32 - nat c) - 2 \<le> int capacity"
  shows "map_option info_network_address (snd (calculate_network_info capacity ip c)) =
           Some (string_from_ip_int4 (a AND ip_int_from_prefix ALL_ONES4 c))
       \<and> map_option info_broadcast_address (snd (calculate_network_info capacity ip c)) =
           Some (string_from_ip_int4
                   ((a AND ip_int_from_prefix ALL_ONES4 c) OR
                    (ip_int_from_prefix ALL_ONES4 c XOR ALL_ONES4)))
       \<and> (\<forall>k. bit (ip_int_from_prefix ALL_ONES4 c) k \<longleftrightarrow> 32 - nat c \<le> k \<and> k < 32)
       \<and> (\<forall>k. bit (ip_int_from_prefix ALL_ONES4 c XOR ALL_ONES4) k \<longleftrightarrow> k < 32 - nat c)
       \<and> (a AND ip_int_from_prefix ALL_ONES4 c) AND (ip_int_from_prefix ALL_ONES4 c XOR ALL_ONES4) = 0"
  using assms(2,3)
  by (simp add: calculate_ipv4 [OF assms] netmask4_bits hostmask4_eq network4_no_host_bits bit_simps)

text \<open>The total host count is then exactly 2 ^ (32 - prefix length), an unbounded integer.\<close>

lemma total_hosts_power:
  assumes "IPv4Address ip = Some a" "0 \<le> c" "c \<le> 32"
    and fits: "c \<le> 30 \<Longrightarrow> 2 ^ (32 - nat c) - 2 \<le> int capacity"
  shows "map_option total_hosts (snd (calculate_network_info capacity ip c)) = Some (2 ^ (32 - nat c))"
  by (simp add: calculate_ipv4 [OF assms])

text \<open>
  The total exceeds 2 exactly when the prefix length is at most 30; then the first usable
  host is the network address plus 1, the last is the broadcast address minus 1, and
  their difference is the total minus 3; for the prefix lengths 31 and 32 both fields
  carry the not-applicable marker.
\<close>

lemma usable_host_range:
  assumes "IPv4Address ip = Some a" "0 \<le> c" "c \<le> 32"
    and fits: "c \<le> 30 \<Longrightarrow> 2 ^ (32 - nat c) - 2 \<le> int capacity"
  shows "\<exists>info. calculate_network_info capacity ip c = ([], Some info)
       \<and> (total_hosts info > 2 \<longleftrightarrow> c \<le> 30)
       \<and> (total_hosts info > 2 \<longrightarrow>
            first_usable_host info =
              string_from_ip_int4 ((a AND ip_int_from_prefix ALL_ONES4 c) + 1)
          \<and> last_usable_host info =
              string_from_ip_int4
                (((a AND ip_int_from_prefix ALL_ONES4 c) OR
                  (ip_int_from_prefix ALL_ONES4 c XOR ALL_ONES4)) - 1)
          \<and> (((a AND ip_int_from_prefix ALL_ONES4 c) OR
                (ip_int_from_prefix ALL_ONES4 c XOR ALL_ONES4)) - 1)
              - ((a AND ip_int_from_prefix ALL_ONES4 c) + 1) = total_hosts info - 3)
       \<and> (total_hosts info \<le> 2 \<longrightarrow>
            first_usable_host info = NA \<and> last_usable_host info = NA)"
proof -
  have b: "(a AND ip_int_from_prefix ALL_ONES4 c) OR (ip_int_from_prefix ALL_ONES4 c XOR ALL_ONES4)
           = (a AND ip_int_from_prefix ALL_ONES4 c) + (2 ^ (32 - nat c) - 1)"
    using assms(2,3) by (simp add: hostmask4_eq broadcast4_sum)
  have g: "(2::int) < 2 ^ (32 - nat c) \<longleftrightarrow> c \<le> 30"
    using assms(2,3) by (rule host_count_gt2)
  have g': "(2::int) ^ (32 - nat c) \<le> 2 \<longleftrightarrow> \<not> c \<le> 30"
    using g by linarith
  show ?thesis
    by (simp add: calculate_ipv4 [OF assms] b g g')
qed



text \<open>
  Claim C2 is right, and the code breaks it, by the same defect: at prefix length 0,
  where the total is 2 ^ 32, the calculation returns no record on a machine that cannot
  hold the list of all hosts, and the program exits with status 1 after the
  unexpected-error message.
\<close>

theorem total_hosts_not_reported_at_prefix_0:
  "capacity < 4294967294 \<Longrightarrow>
     map_option total_hosts (snd (calculate_network_info capacity ''10.0.0.1'' 0)) = None
     \<and> main capacity ''10.0.0.1'' 0 =
         ([LogUnexpected MemoryError, ErrUnexpected MemoryError], 1)"
  by (simp add: calculate_10_0_0_1_prefix_0 main_def ip_address_10_0_0_1)

theorem total_hosts_not_reported_at_prefix_0_witness:
  "(12000000::nat) < 4294967294
   \<and> map_option total_hosts (snd (calculate_network_info 12000000 ''10.0.0.1'' 0)) = None
   \<and> main 12000000 ''10.0.0.1'' 0 = ([LogUnexpected MemoryError, ErrUnexpected MemoryError], 1)"
  using total_hosts_not_reported_at_prefix_0 [of 12000000] by simp

text \<open>
  Claim C3 is right, and the code breaks it, by the same defect: the first and the last
  usable host are read off the materialised list of hosts, so whenever the
  \<open>2 ^ (32 - c) - 2\<close> hosts of a network with prefix length up to 30 do not fit into a
  list, the calculation returns no record and neither field is reported.
\<close>

theorem usable_hosts_not_reported_when_list_too_long:
  assumes "IPv4Address ip = Some a" "0 \<le> c" "c \<le> 30"
    and "int capacity < 2 ^ (32 - nat c) - 2"
  shows "calculate_network_info capacity ip c = ([LogUnexpected MemoryError, ErrUnexpected MemoryError], None)
       \<and> map_option first_usable_host (snd (calculate_network_info capacity ip c)) = None
       \<and> map_option last_usable_host (snd (calculate_network_info capacity ip c)) = None"
  by (simp add: calculate_ipv4_memory_error [OF assms])

theorem usable_hosts_not_reported_when_list_too_long_witness:
  "IPv4Address ''10.0.0.1'' = Some 167772161 \<and> (0::int) \<le> 0 \<and> (0::int) \<le> 30
   \<and> int 12000000 < 2 ^ (32 - nat 0) - 2
   \<and> calculate_network_info 12000000 ''10.0.0.1'' 0 = ([LogUnexpected MemoryError, ErrUnexpected MemoryError], None)
   \<and> map_option first_usable_host (snd (calculate_network_info 12000000 ''10.0.0.1'' 0)) = None
   \<and> map_option last_usable_host (snd (calculate_network_info 12000000 ''10.0.0.1'' 0)) = None"
proof -
  have h: "int 12000000 < 2 ^ (32 - nat 0) - 2" by simp
  show ?thesis
    using usable_hosts_not_reported_when_list_too_long
            [OF IPv4Address_10_0_0_1, of 0 12000000] h
    by (simp add: IPv4Address_10_0_0_1)
qed

lemma IPv4Address_192_168_1_0: "IPv4Address ''192.168.1.0'' = Some 3232235776"
  by code_simp

lemma ip_address_192_168_1_0: "ip_address ''192.168.1.0'' = Some (Addr4 3232235776)"
  by code_simp

text \<open>
  Claim C9. For the address 192.168.1.0 with prefix length 24, on a machine that can
  hold the list of the 254 hosts, the calculation returns network 192.168.1.0,
  broadcast 192.168.1.255, first usable host 192.168.1.1, last usable host
  192.168.1.254 and 256 total hosts, and the program prints these five lines and
  exits with status 0.
\<close>

theorem scenario_192_168_1_0_24:
  assumes "254 \<le> capacity"
  shows "calculate_network_info capacity ''192.168.1.0'' 24 =
     ([], Some \<lparr>info_network_address = ''192.168.1.0'',
                info_broadcast_address = ''192.168.1.255'',
                first_usable_host = ''192.168.1.1'',
                last_usable_host = ''192.168.1.254'',
                total_hosts = 256\<rparr>)
   \<and> main capacity ''192.168.1.0'' 24 =
     ([Stdout ''Network Address:   192.168.1.0'',
       Stdout ''Broadcast Address: 192.168.1.255'',
       Stdout ''First Usable Host: 192.168.1.1'',
       Stdout ''Last Usable Host:  192.168.1.254'',
       Stdout ''Total Hosts:       256''], 0)"
proof -
  have e1: "string_from_ip_int4 (3232235776 AND ip_int_from_prefix ALL_ONES4 24) = ''192.168.1.0''"
    by code_simp
  have e2: "string_from_ip_int4
              ((3232235776 AND ip_int_from_prefix ALL_ONES4 24) OR
               (ip_int_from_prefix ALL_ONES4 24 XOR ALL_ONES4)) = ''192.168.1.255''"
    by code_simp
  have e3: "string_from_ip_int4 ((3232235776 AND ip_int_from_prefix ALL_ONES4 24) + 1) = ''192.168.1.1''"
    by code_simp
  have e4: "string_from_ip_int4
              (((3232235776 AND ip_int_from_prefix ALL_ONES4 24) OR
                (ip_int_from_prefix ALL_ONES4 24 XOR ALL_ONES4)) - 1) = ''192.168.1.254''"
    by code_simp
  have e5: "str_int 256 = ''256''" by code_simp
  have fits: "2 ^ (32 - nat 24) - 2 \<le> int capacity" using assms by simp
  have c: "calculate_network_info capacity ''192.168.1.0'' 24 =
     ([], Some \<lparr>info_network_address = ''192.168.1.0'',
                info_broadcast_address = ''192.168.1.255'',
                first_usable_host = ''192.168.1.1'',
                last_usable_host = ''192.168.1.254'',
                total_hosts = 256\<rparr>)"
    using calculate_ipv4 [OF IPv4Address_192_168_1_0, of 24 capacity] fits
    by (simp add: e1 e2 e3 e4)
  show ?thesis
    by (simp add: c main_def ip_address_192_168_1_0 report_def e5)
qed

theorem scenario_192_168_1_0_24_witness:
  "(254::nat) \<le> 254
   \<and> calculate_network_info 254 ''192.168.1.0'' 24 =
     ([], Some \<lparr>info_network_address = ''192.168.1.0'',
                info_broadcast_address = ''192.168.1.255'',
                first_usable_host = ''192.168.1.1'',
                last_usable_host = ''192.168.1.254'',
                total_hosts = 256\<rparr>)
   \<and> main 254 ''192.168.1.0'' 24 =
     ([Stdout ''Network Address:   192.168.1.0'',
       Stdout ''Broadcast Address: 192.168.1.255'',
       Stdout ''First Usable Host: 192.168.1.1'',
       Stdout ''Last Usable Host:  192.168.1.254'',
       Stdout ''Total Hosts:       256''], 0)"
  using scenario_192_168_1_0_24 [of 254] by simp

subsection \<open>The not-applicable marker is never an address\<close>

lemma N_notin_str_nat: "CHR ''N'' \<notin> set (str_nat n)"
  using str_nat_digits [of n] slash_not_digit by (auto simp: list_all_iff)

lemma N_notin_str_int: "CHR ''N'' \<notin> set (str_int i)"
  by (simp add: str_int_def N_notin_str_nat)

lemma set_join_with: "set (join_with sep ps) \<subseteq> set sep \<union> \<Union> (set ` set ps)"
  by (induction sep ps rule: join_with.induct) auto

lemma N_notin_string4: "CHR ''N'' \<notin> set (string_from_ip_int4 i)"
  using set_join_with [of "''.''" "map str_int (to_bytes4 i)"]
  by (auto simp: string_from_ip_int4_def N_notin_str_int)

lemma hex_char_not_N: "d < 16 \<Longrightarrow> hex_char d \<noteq> CHR ''N''"
proof -
  assume "d < 16"
  then have "''0123456789abcdef'' ! d \<in> set ''0123456789abcdef''"
    by (intro nth_mem) simp
  then show ?thesis unfolding hex_char_def by auto
qed

lemma N_notin_str_hex: "CHR ''N'' \<notin> set (str_hex n)"
proof (induction n rule: str_hex.induct)
  case (1 n)
  show ?case
  proof (cases "n < 16")
    case True
    then show ?thesis
      using hex_char_not_N [of n] by (subst str_hex.simps) auto
  next
    case False
    have "n mod 16 < 16" by simp
    then have "hex_char (n mod 16) \<noteq> CHR ''N''" by (rule hex_char_not_N)
    with False 1 show ?thesis by (subst str_hex.simps) auto
  qed
qed

lemma set_compress_hextets: "set (compress_hextets hs) \<subseteq> insert [] (set hs)"
proof -
  obtain bs bl s l where
    r: "compress_scan (- 1, 0, - 1, 0) (zip (map int [0 ..< length hs]) hs) = (bs, bl, s, l)"
    by (cases "compress_scan (- 1, 0, - 1, 0) (zip (map int [0 ..< length hs]) hs)") auto
  show ?thesis
    unfolding compress_hextets_def r
    by (auto simp: Let_def dest: in_set_takeD in_set_dropD)
qed

lemma N_notin_string6: "CHR ''N'' \<notin> set (string_from_ip_int6 i)"
proof
  assume "CHR ''N'' \<in> set (string_from_ip_int6 i)"
  then obtain p where p: "p \<in> set (compress_hextets
          (map (\<lambda>k. str_hex (nat (i div 2 ^ (16 * (7 - k)) mod 65536))) [0 ..< 8]))"
      and n: "CHR ''N'' \<in> set p"
    using set_join_with [of "'':''" "compress_hextets
          (map (\<lambda>k. str_hex (nat (i div 2 ^ (16 * (7 - k)) mod 65536))) [0 ..< 8])"]
    by (auto simp: string_from_ip_int6_def)
  from p set_compress_hextets
  have "p = [] \<or> p \<in> set (map (\<lambda>k. str_hex (nat (i div 2 ^ (16 * (7 - k)) mod 65536))) [0 ..< 8])"
    by blast
  with n obtain k where "CHR ''N'' \<in> set (str_hex k)" by auto
  then show False by (simp add: N_notin_str_hex)
qed

lemma str_address_not_NA: "str_address x \<noteq> NA"
proof (cases x)
  case (Addr4 i)
  have "CHR ''N'' \<in> set NA" by (simp add: NA_def)
  with N_notin_string4 [of i] Addr4 show ?thesis by auto
next
  case (Addr6 i sc)
  have na: "CHR ''N'' \<in> set NA" "hd NA = CHR ''N''" by (simp_all add: NA_def)
  show ?thesis
  proof (cases sc)
    case None
    with na N_notin_string6 [of i] Addr6 show ?thesis by auto
  next
    case (Some scope)
    show ?thesis
    proof (cases "string_from_ip_int6 i")
      case Nil
      with Addr6 Some show ?thesis by (simp add: NA_def)
    next
      case (Cons h t)
      then have "h \<noteq> CHR ''N''" using N_notin_string6 [of i] by auto
      with Cons Addr6 Some show ?thesis by (auto simp: NA_def)
    qed
  qed
qed

text \<open>
  Claim C10. On every input, and whatever the memory of the machine, the calculation
  either fails (returns \<^verbatim>\<open>None\<close>) or returns, without writing anything, a record in
  which all five fields are present; and in a returned record the first-usable-host
  field is the not-applicable marker exactly when the last-usable-host field is,
  exactly when the total host count is at most 2. (No printed address, IPv4 or IPv6,
  equals the marker.)
\<close>

theorem complete_record_or_failure:
  "(snd (calculate_network_info capacity ip cidr_mask) = None
      \<or> (\<exists>n b f l t. calculate_network_info capacity ip cidr_mask =
            ([], Some \<lparr>info_network_address = n, info_broadcast_address = b,
                       first_usable_host = f, last_usable_host = l, total_hosts = t\<rparr>)))
   \<and> (\<forall>info. snd (calculate_network_info capacity ip cidr_mask) = Some info \<longrightarrow>
         (first_usable_host info = NA \<longleftrightarrow> last_usable_host info = NA)
       \<and> (first_usable_host info = NA \<longleftrightarrow> total_hosts info \<le> 2))"
  by (auto simp: calculate_cases except_ValueError_def except_Exception_def str_address_not_NA
      split: option.splits if_splits)

theorem complete_record_or_failure_witness:
  "snd (calculate_network_info 1000 ''192.168.1.77'' 30) =
     Some \<lparr>info_network_address = ''192.168.1.76'', info_broadcast_address = ''192.168.1.79'',
           first_usable_host = ''192.168.1.77'', last_usable_host = ''192.168.1.78'',
           total_hosts = 4\<rparr>
   \<and> ''192.168.1.77'' \<noteq> NA \<and> ''192.168.1.78'' \<noteq> NA \<and> \<not> (4::int) \<le> 2"
  using complete_record_or_failure
          [where ip = "''192.168.1.77''" and cidr_mask = 30 and capacity = 1000]
  by (simp add: calculate_192_168_1_77_30 NA_def)

subsection \<open>Printing an IPv4 address and parsing it back\<close>

lemma digit_char_nonzero: "0 < d \<Longrightarrow> d < 10 \<Longrightarrow> digit_char d \<noteq> CHR ''0''"
proof -
  assume "0 < d" "d < 10"
  then have "''123456789'' ! (d - 1) \<in> set ''123456789''"
    by (intro nth_mem) simp
  moreover from \<open>0 < d\<close> have "digit_char d = ''123456789'' ! (d - 1)"
    by (cases d) (simp_all add: digit_char_def)
  ultimately show ?thesis by auto
qed

lemma hd_str_nat: "0 < n \<Longrightarrow> hd (str_nat n) \<noteq> CHR ''0''"
proof (induction n rule: str_nat.induct)
  case (1 n)
  show ?case
  proof (cases "n < 10")
    case True
    with 1(2) show ?thesis by (simp add: str_nat_small digit_char_nonzero)
  next
    case False
    then have "0 < n div 10" by simp
    with False 1 have "hd (str_nat (n div 10)) \<noteq> CHR ''0''" by simp
    with False show ?thesis by (simp add: str_nat_large str_nat_nonempty)
  qed
qed

lemma str_nat_0: "str_nat 0 = ''0''"
  by (simp add: str_nat_small digit_char_def)

lemma length_str_nat: "n < 1000 \<Longrightarrow> length (str_nat n) \<le> 3"
proof -
  assume n: "n < 1000"
  show ?thesis
  proof (cases "n < 10")
    case True
    then show ?thesis by (simp add: str_nat_small)
  next
    case False
    show ?thesis
    proof (cases "n div 10 < 10")
      case True
      with False show ?thesis by (simp add: str_nat_large str_nat_small)
    next
      case d: False
      from n have "n div 10 div 10 < 10" by simp
      with False d show ?thesis by (simp add: str_nat_large str_nat_small)
    qed
  qed
qed

lemma parse_octet_str_int:
  assumes "0 \<le> b" "b \<le> 255"
  shows "parse_octet (str_int b) = Some b"
proof -
  have s: "str_int b = str_nat (nat b)" using assms by (simp add: str_int_nonneg)
  have l: "length (str_nat (nat b)) \<le> 3" using assms by (intro length_str_nat) simp
  have z: "str_nat (nat b) \<noteq> ''0'' \<longrightarrow> hd (str_nat (nat b)) \<noteq> CHR ''0''"
  proof (cases "nat b = 0")
    case True
    then show ?thesis by (simp add: str_nat_0)
  next
    case False
    then show ?thesis by (simp add: hd_str_nat)
  qed
  show ?thesis
    unfolding parse_octet_def s using assms l z
    by (auto simp: isdigit_def str_nat_nonempty str_nat_digits int_of_digits_str_nat Let_def)
qed

lemma dot_notin_str_int: "0 \<le> b \<Longrightarrow> CHR ''.'' \<notin> set (str_int b)"
  using str_nat_digits [of "nat b"] slash_not_digit
  by (auto simp: str_int_nonneg list_all_iff)

lemma split_on_quad:
  "sep \<notin> set a \<Longrightarrow> sep \<notin> set b \<Longrightarrow> sep \<notin> set c \<Longrightarrow> sep \<notin> set d \<Longrightarrow>
     split_on sep (a @ sep # b @ sep # c @ sep # d) = [a, b, c, d]"
  by (simp add: split_on_append split_on_no_sep)

lemma recompose:
  "(x::int) = q1 * 256 + r0 \<Longrightarrow> q1 = q2 * 256 + r1 \<Longrightarrow> q2 = q3 * 256 + r2 \<Longrightarrow>
     ((q3 * 256 + r2) * 256 + r1) * 256 + r0 = x"
  by simp

lemma from_bytes_to_bytes4:
  assumes "0 \<le> x" "x < 2 ^ 32"
  shows "from_bytes (to_bytes4 x) = x"
proof -
  have a: "x div 16777216 mod 256 = x div 16777216" using assms by auto
  have d1: "x div 65536 = x div 256 div 256" by (simp add: zdiv_zmult2_eq [symmetric])
  have d2: "x div 16777216 = x div 65536 div 256" by (simp add: zdiv_zmult2_eq [symmetric])
  have e1: "x = x div 256 * 256 + x mod 256" by simp
  have e2: "x div 256 = x div 65536 * 256 + x div 256 mod 256" unfolding d1 by simp
  have e3: "x div 65536 = x div 16777216 * 256 + x div 65536 mod 256" unfolding d2 by simp
  have "((x div 16777216 * 256 + x div 65536 mod 256) * 256 + x div 256 mod 256) * 256 + x mod 256 = x"
    using e1 e2 e3 by (rule recompose)
  then show ?thesis
    by (simp add: from_bytes_def to_bytes4_def a)
qed

lemma to_bytes4_range:
  "b \<in> set (to_bytes4 x) \<Longrightarrow> 0 \<le> b \<and> b \<le> 255"
  by (auto simp: to_bytes4_def)

lemma string_from_ip_int4_eq:
  "string_from_ip_int4 x =
     str_int (x div 2 ^ 24 mod 256) @ CHR ''.'' # str_int (x div 2 ^ 16 mod 256) @
     CHR ''.'' # str_int (x div 2 ^ 8 mod 256) @ CHR ''.'' # str_int (x mod 256)"
  by (simp add: string_from_ip_int4_def to_bytes4_def)

lemma slash_notin_string4: "CHR ''/'' \<notin> set (string_from_ip_int4 x)"
  by (simp add: string_from_ip_int4_eq slash_notin_str_int)

lemma zmod_le_255: "(i::int) mod 256 \<le> 255"
proof -
  have "i mod 256 < 256" by (rule pos_mod_bound) simp
  then show ?thesis by simp
qed

lemma IPv4Address_quad:
  assumes "parse_octet a = Some w" "parse_octet b = Some x"
    "parse_octet c = Some y" "parse_octet d = Some z"
    and "CHR ''.'' \<notin> set a" "CHR ''.'' \<notin> set b" "CHR ''.'' \<notin> set c" "CHR ''.'' \<notin> set d"
    and "CHR ''/'' \<notin> set a" "CHR ''/'' \<notin> set b" "CHR ''/'' \<notin> set c" "CHR ''/'' \<notin> set d"
  shows "IPv4Address (a @ CHR ''.'' # b @ CHR ''.'' # c @ CHR ''.'' # d) = Some (from_bytes [w, x, y, z])"
proof -
  have sp: "split_on CHR ''.'' (a @ CHR ''.'' # b @ CHR ''.'' # c @ CHR ''.'' # d) = [a, b, c, d]"
    using assms(5-8) by (rule split_on_quad)
  show ?thesis
    unfolding IPv4Address_def ip_int_from_string4_def sp
    using assms by simp
qed

lemma IPv4Address_string_from_ip_int4:
  assumes "0 \<le> x" "x < 2 ^ 32"
  shows "IPv4Address (string_from_ip_int4 x) = Some x"
proof -
  have "IPv4Address (string_from_ip_int4 x) = Some (from_bytes (to_bytes4 x))"
    unfolding string_from_ip_int4_eq to_bytes4_def
    by (rule IPv4Address_quad)
       (simp_all only: parse_octet_str_int dot_notin_str_int slash_notin_str_int
          pos_mod_sign pos_mod_bound zero_less_numeral not_False_eq_True
          zmod_le_255)
  then show ?thesis by (simp only: from_bytes_to_bytes4 [OF assms])
qed

lemma netmask4_range:
  assumes "0 \<le> c" "c \<le> 32"
  shows "0 \<le> ip_int_from_prefix ALL_ONES4 c \<and> ip_int_from_prefix ALL_ONES4 c < 2 ^ 32"
proof -
  have "take_bit 32 (ip_int_from_prefix ALL_ONES4 c) = ip_int_from_prefix ALL_ONES4 c"
    using assms by (intro bit_eqI) (auto simp: bit_simps netmask4_bits)
  then show ?thesis
    by (metis take_bit_nonnegative take_bit_int_less_exp)
qed

lemma network4_range:
  assumes "0 \<le> c" "c \<le> 32"
  shows "0 \<le> a AND ip_int_from_prefix ALL_ONES4 c \<and> a AND ip_int_from_prefix ALL_ONES4 c < 2 ^ 32"
proof -
  from netmask4_range [OF assms] have m: "0 \<le> ip_int_from_prefix ALL_ONES4 c"
    "ip_int_from_prefix ALL_ONES4 c < 2 ^ 32" by simp_all
  from m(1) have "a AND ip_int_from_prefix ALL_ONES4 c \<le> ip_int_from_prefix ALL_ONES4 c"
    by (rule AND_upper2)
  with m show ?thesis by simp
qed

text \<open>
  Realignment: the outcome for a valid IPv4 address string, aligned or not, is always
  the outcome for the printed network address with the same prefix length; and when
  the list of hosts fits, that outcome is a record whose network address is the masked
  address.
\<close>

lemma realignment_same_outcome:
  assumes "IPv4Address ip = Some a" "0 \<le> c" "c \<le> 32"
  shows "calculate_network_info capacity ip c =
         calculate_network_info capacity
           (string_from_ip_int4 (a AND ip_int_from_prefix ALL_ONES4 c)) c"
proof -
  let ?m = "ip_int_from_prefix ALL_ONES4 c"
  have r: "IPv4Address (string_from_ip_int4 (a AND ?m)) = Some (a AND ?m)"
    using network4_range [OF assms(2,3), of a] by (intro IPv4Address_string_from_ip_int4) simp_all
  have i: "(a AND ?m) AND ?m = a AND ?m" by (simp add: and.assoc)
  show ?thesis
  proof (cases "c \<le> 30 \<and> int capacity < 2 ^ (32 - nat c) - 2")
    case True
    then show ?thesis
      using calculate_ipv4_memory_error [OF assms(1,2), of capacity]
        calculate_ipv4_memory_error [OF r assms(2), of capacity]
      by simp
  next
    case False
    then have fits: "c \<le> 30 \<Longrightarrow> 2 ^ (32 - nat c) - 2 \<le> int capacity" by simp
    show ?thesis
      using calculate_ipv4 [OF assms fits] calculate_ipv4 [OF r assms(2,3) fits]
      by (simp add: i)
  qed
qed

lemma realignment_idempotent:
  assumes "IPv4Address ip = Some a" "0 \<le> c" "c \<le> 32"
    and fits: "c \<le> 30 \<Longrightarrow> 2 ^ (32 - nat c) - 2 \<le> int capacity"
  shows "\<exists>info. calculate_network_info capacity ip c = ([], Some info)
       \<and> info_network_address info = string_from_ip_int4 (a AND ip_int_from_prefix ALL_ONES4 c)
       \<and> calculate_network_info capacity (info_network_address info) c = ([], Some info)"
proof -
  note e = calculate_ipv4 [OF assms]
  have x: "calculate_network_info capacity
             (string_from_ip_int4 (a AND ip_int_from_prefix ALL_ONES4 c)) c =
           calculate_network_info capacity ip c"
    using realignment_same_outcome [OF assms(1-3), of capacity] by simp
  show ?thesis
    unfolding e by (simp add: x e)
qed



subsection \<open>Which address strings the program accepts\<close>



















end
